theory Spec2Isabelle
  imports Complex_Main
begin

section \<open>Expression model\<close>

text \<open>
  Modelled from the spec: the symbolic expressions of TFunction.py are sympy objects;
  sympy is a third-party library and is not part of the sources. Following sections 3,
  4.1 and 9 of the spec, an expression is an immutable tree over the one declared
  variable \<open>x\<close>, with the node kinds Constant, Variable, Add, Mul, Pow and Call.
  A node built with \<open>evaluate=False\<close> is the bare constructor.

  sympy's evaluated operators (\<open>t - h\<close>, \<open>b * t\<close>, \<open>-t\<close>, \<open>subs\<close>) rearrange what
  they build: a numeric coefficient is distributed over a sum (\<open>2.0*(x - 1.0)\<close> is held
  as \<open>2.0*x - 2.0\<close>, \<open>-(x - 1.0)\<close> as \<open>1.0 - x\<close>), a zero summand is dropped, and
  \<open>subs\<close> evaluates again after replacing. Every such rearrangement keeps the value of
  the expression at every point. The rearrangement is not modelled: the operators below
  build the plain node the spec's algorithm names, which has the same values, and what
  is proved about the result of an evaluated operator is proved about its values.
\<close>

datatype expr =
    Const real
  | Var
  | Add expr expr
  | Mul expr expr
  | Pow expr int
  | Call string expr

text \<open>Python \<open>e - h\<close> on a sympy expression (lines 61 and 135, always on \<open>x\<close>): sympy
  has no subtraction node, the difference is the sum of \<open>e\<close> and the number \<open>-h\<close>. For
  \<open>h = 0\<close> sympy returns \<open>e\<close> itself; the node kept here has the same values.\<close>

definition py_sub :: "expr \<Rightarrow> real \<Rightarrow> expr" where
  "py_sub e c = Add e (Const (- c))"

text \<open>Python \<open>b * e\<close> with a float \<open>b\<close> (lines 63 and 137): the product with the
  numeric coefficient. Over a sum sympy holds it distributed (\<open>b*x - b*h\<close>); the
  product node kept here has the same values.\<close>

definition py_mul :: "real \<Rightarrow> expr \<Rightarrow> expr" where
  "py_mul c e = Mul (Const c) e"

text \<open>Python \<open>-e\<close> (lines 65 and 139): sympy represents the negation as the product
  with \<open>-1\<close>, which it then distributes over a sum or folds into a numeric coefficient;
  the product node kept here has the same values.\<close>

definition py_neg :: "expr \<Rightarrow> expr" where
  "py_neg e = Mul (Const (- 1)) e"

text \<open>\<open>e.subs(x, t)\<close>: every occurrence of the variable is replaced by \<open>t\<close>. sympy
  evaluates the result again, which may rearrange it without changing its values; for
  \<open>t = x\<close> it returns \<open>e\<close> itself.\<close>

fun subs :: "expr \<Rightarrow> expr \<Rightarrow> expr" where
  "subs (Const c) t = Const c"
| "subs Var t = t"
| "subs (Add e1 e2) t = Add (subs e1 t) (subs e2 t)"
| "subs (Mul e1 e2) t = Mul (subs e1 t) (subs e2 t)"
| "subs (Pow e n) t = Pow (subs e t) n"
| "subs (Call f e) t = Call f (subs e t)"

section \<open>Numeric values\<close>

text \<open>
  Modelled from the spec: a sample is a numpy float, which is a finite number, an
  infinity or not-a-number (section 3, SampleSeries). Finite values are reals here:
  rounding and overflow of the 64-bit format are not modelled, and neither is the sign
  of zero. The arithmetic follows IEEE 754 on the non-finite values.
\<close>

datatype npfloat = Fin real | PInf | NInf | NaN

fun isfinite :: "npfloat \<Rightarrow> bool" where
  "isfinite (Fin r) = True"
| "isfinite PInf = False"
| "isfinite NInf = False"
| "isfinite NaN = False"

definition inf_signed :: "real \<Rightarrow> npfloat" where
  "inf_signed r = (if r = 0 then NaN else if 0 < r then PInf else NInf)"

fun np_add :: "npfloat \<Rightarrow> npfloat \<Rightarrow> npfloat" where
  "np_add NaN y = NaN"
| "np_add x NaN = NaN"
| "np_add (Fin r) (Fin s) = Fin (r + s)"
| "np_add PInf NInf = NaN"
| "np_add NInf PInf = NaN"
| "np_add PInf y = PInf"
| "np_add x PInf = PInf"
| "np_add NInf y = NInf"
| "np_add x NInf = NInf"

fun np_neg :: "npfloat \<Rightarrow> npfloat" where
  "np_neg (Fin r) = Fin (- r)"
| "np_neg PInf = NInf"
| "np_neg NInf = PInf"
| "np_neg NaN = NaN"

definition np_sub :: "npfloat \<Rightarrow> npfloat \<Rightarrow> npfloat" where
  "np_sub x y = np_add x (np_neg y)"

fun np_mul :: "npfloat \<Rightarrow> npfloat \<Rightarrow> npfloat" where
  "np_mul NaN y = NaN"
| "np_mul x NaN = NaN"
| "np_mul (Fin r) (Fin s) = Fin (r * s)"
| "np_mul (Fin r) PInf = inf_signed r"
| "np_mul (Fin r) NInf = inf_signed (- r)"
| "np_mul PInf (Fin s) = inf_signed s"
| "np_mul NInf (Fin s) = inf_signed (- s)"
| "np_mul PInf PInf = PInf"
| "np_mul NInf NInf = PInf"
| "np_mul PInf NInf = NInf"
| "np_mul NInf PInf = NInf"

text \<open>\<open>1 / x\<close> on a numpy array: a zero divisor gives an infinity (and a warning),
  not an exception.\<close>

fun np_recip :: "npfloat \<Rightarrow> npfloat" where
  "np_recip (Fin r) = (if r = 0 then PInf else Fin (1 / r))"
| "np_recip PInf = Fin 0"
| "np_recip NInf = Fin 0"
| "np_recip NaN = NaN"

fun np_power :: "npfloat \<Rightarrow> nat \<Rightarrow> npfloat" where
  "np_power x 0 = Fin 1"
| "np_power x (Suc n) = np_mul x (np_power x n)"

definition np_pow :: "npfloat \<Rightarrow> int \<Rightarrow> npfloat" where
  "np_pow x i = (if 0 \<le> i then np_power x (nat i) else np_recip (np_power x (nat (- i))))"

text \<open>The value of an expression at a sample point. The named functions a Call node
  applies (sin, exp, ...) are a parameter \<open>fns\<close>.\<close>

fun eval :: "(string \<Rightarrow> npfloat \<Rightarrow> npfloat) \<Rightarrow> expr \<Rightarrow> npfloat \<Rightarrow> npfloat" where
  "eval fns (Const c) x = Fin c"
| "eval fns Var x = x"
| "eval fns (Add e1 e2) x = np_add (eval fns e1 x) (eval fns e2 x)"
| "eval fns (Mul e1 e2) x = np_mul (eval fns e1 x) (eval fns e2 x)"
| "eval fns (Pow e n) x = np_pow (eval fns e x) n"
| "eval fns (Call f e) x = fns f (eval fns e x)"

section \<open>Transformation Composer (TFunction.py, lines 37-78)\<close>

text \<open>The values the transformation widgets hand to the script: six enable flags and
  four numeric parameters (\<open>h\<close>, \<open>b\<close>, \<open>k\<close>, \<open>a\<close> of the source).\<close>

record controls =
  apply_hshift :: bool
  h_val :: real
  apply_hstretch :: bool
  b_val :: real
  apply_reflect_y :: bool
  apply_vshift :: bool
  k_val :: real
  apply_vstretch :: bool
  a_val :: real
  apply_reflect_x :: bool

text \<open>The script's expression variables. Every assignment of the source is a record
  update.\<close>

record vars =
  base_expr :: expr
  input_expr :: expr
  transformed_expr :: expr
  challenge_input :: expr
  challenge_expr :: expr

text \<open>Lines 59-65: the substitution target.\<close>

definition build_input :: "controls \<Rightarrow> vars \<Rightarrow> vars" where
  "build_input c s0 =
    (let s1 = s0\<lparr>input_expr := Var\<rparr>;
         s2 = (if apply_hshift c then s1\<lparr>input_expr := py_sub (input_expr s1) (h_val c)\<rparr> else s1);
         s3 = (if apply_hstretch c then s2\<lparr>input_expr := py_mul (b_val c) (input_expr s2)\<rparr> else s2);
         s4 = (if apply_reflect_y c then s3\<lparr>input_expr := py_neg (input_expr s3)\<rparr> else s3)
     in s4)"

text \<open>Lines 67-74: substitution, then the vertical transformations as unevaluated
  nodes.\<close>

definition build_output :: "controls \<Rightarrow> vars \<Rightarrow> vars" where
  "build_output c s0 =
    (let s1 = s0\<lparr>transformed_expr := subs (base_expr s0) (input_expr s0)\<rparr>;
         s2 = (if apply_vstretch c
               then s1\<lparr>transformed_expr := Mul (Const (a_val c)) (transformed_expr s1)\<rparr> else s1);
         s3 = (if apply_reflect_x c
               then s2\<lparr>transformed_expr := Mul (Const (- 1)) (transformed_expr s2)\<rparr> else s2);
         s4 = (if apply_vshift c
               then s3\<lparr>transformed_expr := Add (transformed_expr s3) (Const (k_val c))\<rparr> else s3)
     in s4)"

definition build_transformed :: "controls \<Rightarrow> vars \<Rightarrow> vars" where
  "build_transformed c s = build_output c (build_input c s)"

text \<open>Line 78: the displayed formula; \<open>latex\<close> stands for sympy's printer.\<close>

definition final_display :: "(expr \<Rightarrow> string) \<Rightarrow> vars \<Rightarrow> string" where
  "final_display latex s = ''y = '' @ latex (transformed_expr s)"

text \<open>The script's variables before the composer runs. The variables the script has
  not assigned yet hold placeholders, which the sections overwrite before reading.\<close>

definition init_vars :: "expr \<Rightarrow> vars" where
  "init_vars base =
    \<lparr>base_expr = base, input_expr = Const 0, transformed_expr = Const 0,
     challenge_input = Const 0, challenge_expr = Const 0\<rparr>"

text \<open>Lines 42-56 with every checkbox clear: each parameter is its identity value.\<close>

definition all_off :: controls where
  "all_off =
    \<lparr>apply_hshift = False, h_val = 0, apply_hstretch = False, b_val = 1,
     apply_reflect_y = False, apply_vshift = False, k_val = 0,
     apply_vstretch = False, a_val = 1, apply_reflect_x = False\<rparr>"

section \<open>Challenge Generator (TFunction.py, lines 117-150)\<close>

record session_state =
  challenge_generated :: bool
  true_h :: real
  true_k :: real
  true_a :: real
  true_b :: real
  reflect_x :: bool
  reflect_y :: bool

text \<open>\<open>random.choice\<close> picks one element of a non-empty menu; the element picked is
  given by a number the environment supplies.\<close>

definition random_choice :: "'a list \<Rightarrow> nat \<Rightarrow> 'a" where
  "random_choice menu r = menu ! (r mod length menu)"

text \<open>Lines 123-130: the button handler, with the six random draws as arguments.\<close>

definition generate_challenge ::
  "nat \<Rightarrow> nat \<Rightarrow> nat \<Rightarrow> nat \<Rightarrow> nat \<Rightarrow> nat \<Rightarrow> session_state \<Rightarrow> session_state" where
  "generate_challenge r1 r2 r3 r4 r5 r6 st =
    st\<lparr>challenge_generated := True,
       true_h := random_choice [0, 2, - 3] r1,
       true_k := random_choice [0, 3, - 2] r2,
       true_a := random_choice [1, 2] r3,
       true_b := random_choice [1, 0.5] r4,
       reflect_x := random_choice [True, False] r5,
       reflect_y := random_choice [True, False] r6\<rparr>"

text \<open>Lines 132-147: the mystery expression.\<close>

definition challenge_section :: "session_state \<Rightarrow> vars \<Rightarrow> vars" where
  "challenge_section st s0 =
    (if challenge_generated st then
       (let s1 = s0\<lparr>challenge_input := Var\<rparr>;
            s2 = (if true_h st \<noteq> 0
                  then s1\<lparr>challenge_input := py_sub (challenge_input s1) (true_h st)\<rparr> else s1);
            s3 = (if true_b st \<noteq> 1
                  then s2\<lparr>challenge_input := py_mul (true_b st) (challenge_input s2)\<rparr> else s2);
            s4 = (if reflect_y st
                  then s3\<lparr>challenge_input := py_neg (challenge_input s3)\<rparr> else s3);
            s5 = s4\<lparr>challenge_expr := subs (base_expr s4) (challenge_input s4)\<rparr>;
            s6 = (if true_a st \<noteq> 1
                  then s5\<lparr>challenge_expr := Mul (Const (true_a st)) (challenge_expr s5)\<rparr> else s5);
            s7 = (if reflect_x st
                  then s6\<lparr>challenge_expr := Mul (Const (- 1)) (challenge_expr s6)\<rparr> else s6);
            s8 = (if true_k st \<noteq> 0
                  then s7\<lparr>challenge_expr := Add (challenge_expr s7) (Const (true_k st))\<rparr> else s7)
        in s8)
     else s0)"

text \<open>The spec's reading of section 4.5: the Composer's controls with all four
  parametrised transformations enabled at the drawn values, and each reflection as
  drawn.\<close>

definition all_enabled_spec :: "session_state \<Rightarrow> controls" where
  "all_enabled_spec st =
    \<lparr>apply_hshift = True, h_val = true_h st, apply_hstretch = True, b_val = true_b st,
     apply_reflect_y = reflect_y st, apply_vshift = True, k_val = true_k st,
     apply_vstretch = True, a_val = true_a st, apply_reflect_x = reflect_x st\<rparr>"

text \<open>What the guards of lines 134-146 amount to: a parametrised transformation is
  applied exactly when its drawn value is not the identity value.\<close>

definition enabled_unless_identity :: "session_state \<Rightarrow> controls" where
  "enabled_unless_identity st =
    \<lparr>apply_hshift = (true_h st \<noteq> 0), h_val = true_h st,
     apply_hstretch = (true_b st \<noteq> 1), b_val = true_b st,
     apply_reflect_y = reflect_y st,
     apply_vshift = (true_k st \<noteq> 0), k_val = true_k st,
     apply_vstretch = (true_a st \<noteq> 1), a_val = true_a st,
     apply_reflect_x = reflect_x st\<rparr>"

text \<open>The session before the first challenge: the flag of line 121, the six values not
  drawn yet.\<close>

definition session0 :: session_state where
  "session0 =
    \<lparr>challenge_generated = False, true_h = 0, true_k = 0, true_a = 1, true_b = 1,
     reflect_x = False, reflect_y = False\<rparr>"

section \<open>Numeric Sampler (TFunction.py, lines 80-91)\<close>

text \<open>
  Modelled from the spec: \<open>sp.lambdify\<close> and the numpy evaluation of the function it
  returns are third-party code. They are a parameter \<open>lambdify\<close> of the sampler: given
  an expression it raises (\<open>Inl\<close> of the message) or returns a function on the grid,
  which in turn raises or returns an array of complex numbers (real and imaginary
  part).
\<close>

type_synonym npcomplex = "npfloat \<times> npfloat"

type_synonym lambdified = "real list \<Rightarrow> string + npcomplex list"

definition np_real :: "npcomplex list \<Rightarrow> npfloat list" where
  "np_real zs = map fst zs"

text \<open>Line 82: \<open>np.linspace(-15, 15, 1000)\<close>.\<close>

definition x_vals :: "real list" where
  "x_vals = map (\<lambda>i. - 15 + real i * (30 / 999)) [0..<1000]"

text \<open>Lines 84-91: the \<open>try\<close> block; \<open>Inl\<close> is the message \<open>st.error\<close> shows before
  \<open>st.stop()\<close>.\<close>

definition sample_curves ::
  "(expr \<Rightarrow> string + lambdified) \<Rightarrow> real list \<Rightarrow> vars \<Rightarrow> string + (npfloat list \<times> npfloat list)" where
  "sample_curves lambdify xs s =
    (case lambdify (base_expr s) of
       Inl e \<Rightarrow> Inl (''Error evaluating function: '' @ e)
     | Inr f_base \<Rightarrow>
        (case lambdify (transformed_expr s) of
           Inl e \<Rightarrow> Inl (''Error evaluating function: '' @ e)
         | Inr f_trans \<Rightarrow>
            (case f_base xs of
               Inl e \<Rightarrow> Inl (''Error evaluating function: '' @ e)
             | Inr v_base \<Rightarrow>
                (case f_trans xs of
                   Inl e \<Rightarrow> Inl (''Error evaluating function: '' @ e)
                 | Inr v_trans \<Rightarrow> Inr (np_real v_base, np_real v_trans)))))"

text \<open>Modelled from the spec: the numpy function of an expression evaluates it at every
  grid point with the arithmetic of section "Numeric values"; it does not raise.\<close>

definition np_lambdify :: "(string \<Rightarrow> npfloat \<Rightarrow> npfloat) \<Rightarrow> expr \<Rightarrow> string + lambdified" where
  "np_lambdify fns e = Inr (\<lambda>xs. Inr (map (\<lambda>x. (eval fns e (Fin x), Fin 0)) xs))"

section \<open>Plot Range Selector (TFunction.py, lines 104-113)\<close>

fun np_minimum :: "npfloat \<Rightarrow> npfloat \<Rightarrow> npfloat" where
  "np_minimum NaN y = NaN"
| "np_minimum x NaN = NaN"
| "np_minimum (Fin r) (Fin s) = Fin (min r s)"
| "np_minimum NInf y = NInf"
| "np_minimum x NInf = NInf"
| "np_minimum PInf y = y"
| "np_minimum x PInf = x"

fun np_maximum :: "npfloat \<Rightarrow> npfloat \<Rightarrow> npfloat" where
  "np_maximum NaN y = NaN"
| "np_maximum x NaN = NaN"
| "np_maximum (Fin r) (Fin s) = Fin (max r s)"
| "np_maximum PInf y = PInf"
| "np_maximum x PInf = PInf"
| "np_maximum NInf y = y"
| "np_maximum x NInf = x"

definition combined_y :: "npfloat list \<Rightarrow> npfloat list \<Rightarrow> npfloat list" where
  "combined_y y_base y_trans = y_base @ y_trans"

definition finite_y :: "npfloat list \<Rightarrow> npfloat list \<Rightarrow> npfloat list" where
  "finite_y y_base y_trans = filter isfinite (combined_y y_base y_trans)"

text \<open>The pair handed to \<open>ax.set_ylim\<close>. The test \<open>finite_y.size > 0\<close> is the case
  distinction on the list; \<open>np.min\<close> and \<open>np.max\<close> fold over the non-empty array.\<close>

definition y_limits :: "npfloat list \<Rightarrow> npfloat list \<Rightarrow> npfloat \<times> npfloat" where
  "y_limits y_base y_trans =
    (case finite_y y_base y_trans of
       [] \<Rightarrow> (Fin (- 20), Fin 20)
     | y # ys \<Rightarrow>
        (let ymin = fold np_minimum ys y;
             ymax = fold np_maximum ys y;
             padding = (if ymax \<noteq> ymin then np_mul (np_sub ymax ymin) (Fin 0.1) else Fin 1)
         in (np_sub ymin padding, np_add ymax padding)))"

text \<open>The finite values of a series, as real numbers.\<close>

fun fin_vals :: "npfloat list \<Rightarrow> real list" where
  "fin_vals [] = []"
| "fin_vals (Fin r # ys) = r # fin_vals ys"
| "fin_vals (y # ys) = fin_vals ys"

section \<open>The page (TFunction.py, lines 26-115)\<close>

text \<open>
  What one run of the script shows, top to bottom: an error box (\<open>st.error\<close>, followed
  by \<open>st.stop()\<close>), the typeset formula, the chart with its two curves and its y-range.
  \<open>sympify\<close> stands for sympy's parser, which raises (\<open>Inl\<close> of the message) or
  returns the base expression.
\<close>

datatype element =
    ErrorBox string
  | Formula string
  | Chart "npfloat list" "npfloat list" "npfloat \<times> npfloat"

definition main_page ::
  "(string \<Rightarrow> string + expr) \<Rightarrow> (expr \<Rightarrow> string) \<Rightarrow> (expr \<Rightarrow> string + lambdified)
    \<Rightarrow> string \<Rightarrow> controls \<Rightarrow> element list" where
  "main_page sympify latex lambdify user_input c =
    (case sympify user_input of
       Inl e \<Rightarrow> [ErrorBox (''Invalid function: '' @ e)]
     | Inr base \<Rightarrow>
        (let s = build_transformed c (init_vars base) in
         Formula (final_display latex s) #
         (case sample_curves lambdify x_vals s of
            Inl msg \<Rightarrow> [ErrorBox msg]
          | Inr (y_base, y_trans) \<Rightarrow> [Chart y_base y_trans (y_limits y_base y_trans)])))"

fun is_chart :: "element \<Rightarrow> bool" where
  "is_chart (Chart yb yt yl) = True"
| "is_chart el = False"


section \<open>Properties of the expression model\<close>

lemma subs_Var [simp]: "subs e Var = e"
  by (induction e) simp_all



lemma np_mul_one [simp]: "np_mul (Fin 1) v = v"
  by (cases v) (simp_all add: inf_signed_def)

lemmas composer_defs = build_transformed_def build_output_def build_input_def
  py_sub_def py_mul_def py_neg_def Let_def

lemmas challenge_defs = challenge_section_def py_sub_def py_mul_def py_neg_def Let_def

section \<open>Properties of the Transformation Composer\<close>

text \<open>
  C1. With all six enable flags false the composed expression is the base expression
  itself, whatever the parameter values are, and so is its displayed form under any
  printer.
\<close>

theorem composer_identity:
  assumes "\<not> apply_hshift c" and "\<not> apply_hstretch c" and "\<not> apply_reflect_y c"
    and "\<not> apply_vstretch c" and "\<not> apply_reflect_x c" and "\<not> apply_vshift c"
  shows "transformed_expr (build_transformed c s) = base_expr s
    \<and> input_expr (build_transformed c s) = Var
    \<and> final_display latex (build_transformed c s) = ''y = '' @ latex (base_expr s)"
  using assms
  by (simp add: build_transformed_def build_output_def build_input_def final_display_def)

theorem composer_identity_witness:
  "transformed_expr (build_transformed all_off (init_vars (Pow Var 2))) = Pow Var 2
   \<and> final_display (\<lambda>e. ''f'') (build_transformed all_off (init_vars (Pow Var 2))) = ''y = f''"
  using composer_identity [of all_off "init_vars (Pow Var 2)" "\<lambda>e. ''f''"]
  by (simp add: all_off_def init_vars_def)








section \<open>Properties of the Challenge Generator\<close>

text \<open>
  C9, as stated, fails. The draws 2, 3, 1, 0.5, True, True are on the menus, and with
  them the mystery expression of the base \<open>x\<close> has no factor for the drawn \<open>a = 1\<close>,
  while the Composer with all transformations enabled at the drawn values has the
  explicit factor 1.
\<close>

theorem challenge_all_enabled_counterexample:
  "challenge_generated (generate_challenge 1 1 0 1 0 0 session0)
   \<and> true_a (generate_challenge 1 1 0 1 0 0 session0) = 1
   \<and> challenge_expr (challenge_section (generate_challenge 1 1 0 1 0 0 session0) (init_vars Var))
      = Add (Mul (Const (- 1)) (Mul (Const (- 1)) (Mul (Const 0.5) (Add Var (Const (- 2)))))) (Const 3)
   \<and> transformed_expr (build_transformed
        (all_enabled_spec (generate_challenge 1 1 0 1 0 0 session0)) (init_vars Var))
      = Add (Mul (Const (- 1)) (Mul (Const 1) (Mul (Const (- 1)) (Mul (Const 0.5) (Add Var (Const (- 2))))))) (Const 3)
   \<and> challenge_expr (challenge_section (generate_challenge 1 1 0 1 0 0 session0) (init_vars Var))
      \<noteq> transformed_expr (build_transformed
        (all_enabled_spec (generate_challenge 1 1 0 1 0 0 session0)) (init_vars Var))"
  by (simp add: generate_challenge_def random_choice_def session0_def challenge_section_def
      composer_defs all_enabled_spec_def init_vars_def)

text \<open>
  C9, amended. Once a challenge has been generated, the mystery expression is the
  Composer's output on the same base expression with the drawn values as parameters,
  each reflection enabled as drawn, and each of the four parametrised transformations
  enabled exactly when its drawn value is not the identity value (\<open>h\<close> and \<open>k\<close> not 0,
  \<open>a\<close> and \<open>b\<close> not 1).
\<close>

theorem challenge_reuses_composer:
  assumes "challenge_generated st"
  shows "challenge_expr (challenge_section st s)
      = transformed_expr (build_transformed (enabled_unless_identity st) s)
    \<and> challenge_input (challenge_section st s)
      = input_expr (build_transformed (enabled_unless_identity st) s)"
  using assms
  by (simp add: challenge_section_def composer_defs enabled_unless_identity_def)

theorem challenge_reuses_composer_witness:
  "challenge_expr (challenge_section (generate_challenge 1 1 0 1 0 0 session0) (init_vars Var))
    = transformed_expr (build_transformed
        (enabled_unless_identity (generate_challenge 1 1 0 1 0 0 session0)) (init_vars Var))"
  using challenge_reuses_composer [of "generate_challenge 1 1 0 1 0 0 session0" "init_vars Var"]
  by (simp add: generate_challenge_def)

section \<open>Properties of the Plot Range Selector\<close>

lemma filter_isfinite: "filter isfinite ys = map Fin (fin_vals ys)"
  by (induction ys rule: fin_vals.induct) simp_all

lemma fold_np_minimum: "fold np_minimum (map Fin rs) (Fin r) = Fin (fold min rs r)"
  by (induction rs arbitrary: r) simp_all

lemma fold_np_maximum: "fold np_maximum (map Fin rs) (Fin r) = Fin (fold max rs r)"
  by (induction rs arbitrary: r) simp_all

lemma fin_vals_empty: "fin_vals ys = [] \<longleftrightarrow> (\<forall>y \<in> set ys. \<not> isfinite y)"
  by (induction ys rule: fin_vals.induct) simp_all

lemma y_limits_finite:
  assumes "fin_vals (ya @ yb) = r # rs"
  shows "y_limits ya yb =
     (let ymin = Min (set (r # rs)); ymax = Max (set (r # rs));
          padding = (if ymax = ymin then 1 else (ymax - ymin) * 0.1)
      in (Fin (ymin - padding), Fin (ymax + padding)))"
proof -
  have "finite_y ya yb = Fin r # map Fin rs"
    unfolding finite_y_def combined_y_def filter_isfinite assms by simp
  then show ?thesis
    by (simp add: y_limits_def fold_np_minimum fold_np_maximum Min.set_eq_fold Max.set_eq_fold
        Let_def np_sub_def del: set_simps)
qed

text \<open>
  C5. When the two series hold at least one finite value, the non-finite entries are
  dropped and the range is \<open>(ymin - padding, ymax + padding)\<close>, with \<open>ymin\<close> and
  \<open>ymax\<close> the least and the greatest finite value and \<open>padding\<close> a tenth of their
  difference, or 1 when they are equal. The series [1, 2, NaN] and [0, 5, Infinity]
  give (-0.5, 5.5); two series constant at 4 give (3, 5).
\<close>

theorem range_of_finite_values:
  assumes "\<exists>y \<in> set (ya @ yb). isfinite y"
  shows "finite_y ya yb = filter isfinite (ya @ yb)
    \<and> y_limits ya yb =
       (let vs = fin_vals (ya @ yb); ymin = Min (set vs); ymax = Max (set vs);
            padding = (if ymax = ymin then 1 else (ymax - ymin) * 0.1)
        in (Fin (ymin - padding), Fin (ymax + padding)))
    \<and> y_limits [Fin 1, Fin 2, NaN] [Fin 0, Fin 5, PInf] = (Fin (- 0.5), Fin 5.5)
    \<and> y_limits [Fin 4, Fin 4, Fin 4] [Fin 4, Fin 4, Fin 4] = (Fin 3, Fin 5)"
proof -
  from assms have "fin_vals (ya @ yb) \<noteq> []"
    using fin_vals_empty [of "ya @ yb"] by blast
  then obtain r rs where vs: "fin_vals (ya @ yb) = r # rs"
    by (cases "fin_vals (ya @ yb)") auto
  have general: "y_limits ya yb =
       (let vs = fin_vals (ya @ yb); ymin = Min (set vs); ymax = Max (set vs);
            padding = (if ymax = ymin then 1 else (ymax - ymin) * 0.1)
        in (Fin (ymin - padding), Fin (ymax + padding)))"
    using y_limits_finite [OF vs] by (simp add: vs Let_def)
  have ex1: "y_limits [Fin 1, Fin 2, NaN] [Fin 0, Fin 5, PInf] = (Fin (- 0.5), Fin 5.5)"
    by (simp add: y_limits_def finite_y_def combined_y_def np_sub_def)
  have ex2: "y_limits [Fin 4, Fin 4, Fin 4] [Fin 4, Fin 4, Fin 4] = (Fin 3, Fin 5)"
    by (simp add: y_limits_def finite_y_def combined_y_def np_sub_def)
  show ?thesis
    using general ex1 ex2 by (simp add: finite_y_def combined_y_def)
qed

theorem range_of_finite_values_witness:
  "(\<exists>y \<in> set ([Fin 1, Fin 2, NaN] @ [Fin 0, Fin 5, PInf]). isfinite y)
   \<and> finite_y [Fin 1, Fin 2, NaN] [Fin 0, Fin 5, PInf] = [Fin 1, Fin 2, Fin 0, Fin 5]
   \<and> y_limits [Fin 1, Fin 2, NaN] [Fin 0, Fin 5, PInf]
      = (Fin (Min {1, 2, 0, 5} - (Max {1, 2, 0, 5} - Min {1, 2, 0, 5}) * 0.1),
         Fin (Max {1, 2, 0, 5} + (Max {1, 2, 0, 5} - Min {1, 2, 0, 5}) * 0.1))"
proof -
  have h: "\<exists>y \<in> set ([Fin 1, Fin 2, NaN] @ [Fin 0, Fin 5, PInf]). isfinite y"
    by simp
  show ?thesis
    using h range_of_finite_values [OF h] by (simp add: Let_def)
qed

text \<open>
  C6. When every value of the two series is non-finite, the range is the fallback
  (-20, 20).
\<close>

theorem range_fallback:
  assumes "\<forall>y \<in> set (ya @ yb). \<not> isfinite y"
  shows "y_limits ya yb = (Fin (- 20), Fin 20)"
proof -
  have "filter isfinite (ya @ yb) = []"
    using assms by (simp add: filter_empty_conv)
  then show ?thesis
    by (simp add: y_limits_def finite_y_def combined_y_def)
qed

theorem range_fallback_witness:
  "\<not> isfinite NaN \<and> \<not> isfinite PInf \<and> \<not> isfinite NInf
   \<and> y_limits [NaN, PInf] [NInf, NaN] = (Fin (- 20), Fin 20)"
proof -
  have h: "\<forall>y \<in> set ([NaN, PInf] @ [NInf, NaN]). \<not> isfinite y"
    by simp
  show ?thesis
    using range_fallback [OF h] by simp
qed

section \<open>Properties of the Numeric Sampler\<close>

lemma y_limits_filter: "y_limits (filter isfinite yb) (filter isfinite yt) = y_limits yb yt"
  by (simp add: y_limits_def finite_y_def combined_y_def)

text \<open>
  C7. Whatever the lambdified functions do, the outcome of the sampler's \<open>try\<close> block
  is either the reported message of an exception that one of them raised, or the two
  series of the real components of the values they returned. With numpy's evaluation,
  sampling never fails; the base function \<open>1/x\<close> has the non-finite value at
  \<open>x = 0\<close>, a grid through 0 is sampled without a failure, and the Range Selector
  drops every non-finite value, so that its range is the range of the finite samples.
\<close>

theorem sampler_no_fault:
  "((\<exists>e. sample_curves lambdify xs s = Inl (''Error evaluating function: '' @ e)
        \<and> (lambdify (base_expr s) = Inl e \<or> lambdify (transformed_expr s) = Inl e
            \<or> (\<exists>f. lambdify (base_expr s) = Inr f \<and> f xs = Inl e)
            \<or> (\<exists>g. lambdify (transformed_expr s) = Inr g \<and> g xs = Inl e)))
     \<or> (\<exists>f g v_base v_trans.
          lambdify (base_expr s) = Inr f \<and> lambdify (transformed_expr s) = Inr g
          \<and> f xs = Inr v_base \<and> g xs = Inr v_trans
          \<and> sample_curves lambdify xs s = Inr (map fst v_base, map fst v_trans)))
   \<and> sample_curves (np_lambdify fns) xs s =
        Inr (map (\<lambda>x. eval fns (base_expr s) (Fin x)) xs,
             map (\<lambda>x. eval fns (transformed_expr s) (Fin x)) xs)
   \<and> eval fns (Pow Var (- 1)) (Fin 0) = PInf
   \<and> \<not> isfinite (eval fns (Pow Var (- 1)) (Fin 0))
   \<and> sample_curves (np_lambdify fns) [- 1, 0, 1]
        (build_transformed all_off (init_vars (Pow Var (- 1)))) =
        Inr ([Fin (- 1), PInf, Fin 1], [Fin (- 1), PInf, Fin 1])
   \<and> finite_y [Fin (- 1), PInf, Fin 1] [Fin (- 1), PInf, Fin 1]
        = [Fin (- 1), Fin 1, Fin (- 1), Fin 1]
   \<and> y_limits [Fin (- 1), PInf, Fin 1] [Fin (- 1), PInf, Fin 1] = (Fin (- 1.2), Fin 1.2)
   \<and> list_all isfinite (finite_y y_base y_trans)
   \<and> y_limits y_base y_trans = y_limits (filter isfinite y_base) (filter isfinite y_trans)"
proof -
  have caught: "(\<exists>e. sample_curves lambdify xs s = Inl (''Error evaluating function: '' @ e)
        \<and> (lambdify (base_expr s) = Inl e \<or> lambdify (transformed_expr s) = Inl e
            \<or> (\<exists>f. lambdify (base_expr s) = Inr f \<and> f xs = Inl e)
            \<or> (\<exists>g. lambdify (transformed_expr s) = Inr g \<and> g xs = Inl e)))
     \<or> (\<exists>f g v_base v_trans.
          lambdify (base_expr s) = Inr f \<and> lambdify (transformed_expr s) = Inr g
          \<and> f xs = Inr v_base \<and> g xs = Inr v_trans
          \<and> sample_curves lambdify xs s = Inr (map fst v_base, map fst v_trans))"
    by (auto simp: sample_curves_def np_real_def split: sum.splits)
  have np: "sample_curves (np_lambdify fns) xs s =
        Inr (map (\<lambda>x. eval fns (base_expr s) (Fin x)) xs,
             map (\<lambda>x. eval fns (transformed_expr s) (Fin x)) xs)"
    by (simp add: sample_curves_def np_lambdify_def np_real_def comp_def)
  have at0: "eval fns (Pow Var (- 1)) (Fin 0) = PInf"
    by (simp add: np_pow_def)
  have grid: "sample_curves (np_lambdify fns) [- 1, 0, 1]
        (build_transformed all_off (init_vars (Pow Var (- 1)))) =
        Inr ([Fin (- 1), PInf, Fin 1], [Fin (- 1), PInf, Fin 1])"
    by (simp add: sample_curves_def np_lambdify_def np_real_def composer_defs all_off_def
        init_vars_def np_pow_def)
  have fy: "finite_y [Fin (- 1), PInf, Fin 1] [Fin (- 1), PInf, Fin 1]
        = [Fin (- 1), Fin 1, Fin (- 1), Fin 1]"
    by (simp add: finite_y_def combined_y_def)
  have lim: "y_limits [Fin (- 1), PInf, Fin 1] [Fin (- 1), PInf, Fin 1] = (Fin (- 1.2), Fin 1.2)"
    by (simp add: y_limits_def fy np_sub_def)
  have allfin: "list_all isfinite (finite_y y_base y_trans)"
    by (simp add: finite_y_def list_all_iff)
  show ?thesis
    using caught np at0 grid fy lim allfin y_limits_filter [of y_base y_trans] by simp
qed

theorem sampler_no_fault_witness:
  "sample_curves (np_lambdify (\<lambda>f v. v)) [0] (init_vars (Pow Var (- 1))) = Inr ([PInf], [Fin 0])
   \<and> y_limits [PInf] [Fin 0] = y_limits [] [Fin 0]"
  using sampler_no_fault [of "np_lambdify (\<lambda>f v. v)" "[0]" "init_vars (Pow Var (- 1))" "\<lambda>f v. v" "[PInf]" "[Fin 0]"]
  by (simp add: init_vars_def np_pow_def)

section \<open>The base expression is never changed\<close>

lemma base_expr_build_transformed: "base_expr (build_transformed c s) = base_expr s"
  by (simp add: composer_defs)

text \<open>
  C10. The Composer and the challenge section leave the variable \<open>base_expr\<close> as it
  was: what they build goes to other variables. The base curve sampled after the
  Composer has run is the real component of the lambdified original base expression on
  the grid.
\<close>

theorem base_expr_not_mutated:
  "base_expr (build_transformed c s) = base_expr s
   \<and> base_expr (challenge_section st s) = base_expr s
   \<and> (\<forall>y_base y_trans. sample_curves lambdify xs (build_transformed c s) = Inr (y_base, y_trans)
        \<longrightarrow> (\<exists>f v. lambdify (base_expr s) = Inr f \<and> f xs = Inr v \<and> y_base = np_real v))"
  by (auto simp: base_expr_build_transformed challenge_defs sample_curves_def split: sum.splits)

theorem base_expr_not_mutated_witness:
  "base_expr (build_transformed (all_off\<lparr>apply_vstretch := True, a_val := 2\<rparr>) (init_vars (Pow Var 2)))
     = Pow Var 2
   \<and> sample_curves (np_lambdify (\<lambda>f v. v)) [3]
       (build_transformed (all_off\<lparr>apply_vstretch := True, a_val := 2\<rparr>) (init_vars (Pow Var 2)))
     = Inr ([Fin 9], [Fin 18])
   \<and> (\<exists>f v. np_lambdify (\<lambda>f v. v) (Pow Var 2) = Inr f \<and> f [3] = Inr v \<and> [Fin 9] = np_real v)"
proof -
  have run: "sample_curves (np_lambdify (\<lambda>f v. v)) [3]
       (build_transformed (all_off\<lparr>apply_vstretch := True, a_val := 2\<rparr>) (init_vars (Pow Var 2)))
     = Inr ([Fin 9], [Fin 18])"
    by (simp add: sample_curves_def np_lambdify_def np_real_def composer_defs all_off_def
        init_vars_def np_pow_def numeral_2_eq_2)
  show ?thesis
    using run base_expr_not_mutated [of "all_off\<lparr>apply_vstretch := True, a_val := 2\<rparr>"
        "init_vars (Pow Var 2)" session0 "np_lambdify (\<lambda>f v. v)" "[3]"]
    by (simp add: init_vars_def)
qed

section \<open>The parse boundary\<close>

text \<open>
  When the parser raises, the page is the one error box "Invalid function: ..." and
  nothing else; a chart is on the page only if the parser returned an expression and
  the sampler returned both series.
\<close>

theorem parse_error_boundary:
  "(sympify user_input = Inl e \<longrightarrow>
      main_page sympify latex lambdify user_input c = [ErrorBox (''Invalid function: '' @ e)])
   \<and> ((\<exists>el \<in> set (main_page sympify latex lambdify user_input c). is_chart el) \<longrightarrow>
        (\<exists>base y_base y_trans. sympify user_input = Inr base
          \<and> sample_curves lambdify x_vals (build_transformed c (init_vars base)) = Inr (y_base, y_trans)))"
  by (auto simp: main_page_def Let_def split: sum.splits)

theorem parse_error_boundary_witness:
  "main_page (\<lambda>t. Inl ''bad'') latex lambdify ''x**'' all_off = [ErrorBox ''Invalid function: bad'']"
  using parse_error_boundary [of "\<lambda>t. Inl ''bad''" "''x**''" "''bad''" latex lambdify all_off]
  by simp


end
